theory Spec2Isabelle
  imports Main
begin

section \<open>Data model\<close>

text \<open>
  Beam positions and direction components are Python integers, hence \<open>int\<close>.
  A direction is the pair \<open>(vx, vy)\<close>; a beam state (a laser of the board, or an
  entry of the worklist) is the 4-tuple \<open>(x, y, vx, vy)\<close>.
\<close>

type_synonym direction = "int \<times> int"
type_synonym beam = "int \<times> int \<times> int \<times> int"

text \<open>
  The module \<open>blocks\<close> is imported by \<open>visualization_image.py\<close> and is not part of
  the analysed source, so a block is taken as a parameter: the two methods the tracer
  calls on it. The value returned by \<open>interact\<close> has one of the shapes the tracer
  distinguishes at run time: \<open>None\<close>, one direction pair (a tuple or list of two
  integers), or a sequence (possibly empty) of direction pairs.
\<close>

datatype interact_result =
    RNone
  | RPair int int
  | RSeq "direction list"

record block =
  within_boundaries :: "int \<Rightarrow> int \<Rightarrow> bool"
  interact :: "direction \<Rightarrow> int \<times> int \<Rightarrow> interact_result"

text \<open>
  The third component of the tuple returned by \<open>find_lazor_endpoint\<close>: the Python
  value \<open>None\<close>, or a sequence of direction pairs.
\<close>

datatype new_dirs =
    DNone
  | DList "direction list"

text \<open>
  Lists that the code mutates in place (\<open>pop\<close>, \<open>append\<close>) are objects of a store,
  referred to by address. The board holds a reference to its list of lasers.
\<close>

type_synonym addr = nat
type_synonym store = "beam list list"

record board =
  placed_blocks :: "block list"
  orig_grid :: "string list"
  points :: "(int \<times> int) list"
  lasers :: addr

text \<open>
  Modelled from the spec: \<open>Board.get_placed_blocks\<close> is defined outside the analysed
  source; it returns the ordered collection of the blocks placed on the board.
\<close>

definition get_placed_blocks :: "board \<Rightarrow> block list" where
  "get_placed_blocks b = placed_blocks b"

section \<open>The single-beam tracer: \<open>find_lazor_endpoint\<close>\<close>

text \<open>
  Lines 32 to 39: a truthy result (a pair, or a non-empty sequence) whose first
  element is itself a list or tuple is copied into a list of directions, any other
  truthy result is wrapped into a one-element list, and a falsy result (\<open>None\<close>, or
  an empty sequence) is kept as it is.
\<close>

fun normalize_directions :: "interact_result \<Rightarrow> new_dirs" where
  "normalize_directions RNone = DNone"
| "normalize_directions (RPair a b) = DList [(a, b)]"
| "normalize_directions (RSeq ds) = DList ds"

text \<open>
  Lines 29 to 41: the \<open>for\<close> loop over the placed blocks, left by \<open>break\<close> at the
  first block whose boundary holds the point. \<open>None\<close> stands for
  \<open>found_collision = False\<close>.
\<close>

fun scan_blocks :: "block list \<Rightarrow> direction \<Rightarrow> int \<Rightarrow> int \<Rightarrow> new_dirs option" where
  "scan_blocks [] d x y = None"
| "scan_blocks (b # bs) d x y =
     (if within_boundaries b x y
      then Some (normalize_directions (interact b d (x, y)))
      else scan_blocks bs d x y)"

text \<open>The exclusive test of line 23 and the inclusive test of lines 45 and 149.\<close>

definition strictly_inside :: "int \<Rightarrow> int \<Rightarrow> int \<Rightarrow> int \<Rightarrow> bool" where
  "strictly_inside gx gy x y \<longleftrightarrow> 0 < x \<and> x < gx \<and> 0 < y \<and> y < gy"

definition within_bounds :: "int \<Rightarrow> int \<Rightarrow> int \<Rightarrow> int \<Rightarrow> bool" where
  "within_bounds gx gy x y \<longleftrightarrow> 0 \<le> x \<and> x \<le> gx \<and> 0 \<le> y \<and> y \<le> gy"

text \<open>
  Lines 23 to 56: the \<open>while\<close> loop. It need not terminate, so the loop is a partial
  function and \<open>None\<close> is the run that never returns.
\<close>

partial_function (option) trace_loop ::
  "block list \<Rightarrow> int \<Rightarrow> int \<Rightarrow> int \<Rightarrow> int \<Rightarrow> int \<Rightarrow> int \<Rightarrow> bool \<Rightarrow> (int \<times> int \<times> new_dirs) option"
where
  "trace_loop blocks x y vx vy grid_size_x grid_size_y is_first_turn =
     (if strictly_inside grid_size_x grid_size_y x y \<or> is_first_turn
      then (case scan_blocks blocks (vx, vy) (x + vx) (y + vy) of
              Some nd \<Rightarrow>
                (if within_bounds grid_size_x grid_size_y (x + vx) (y + vy)
                 then Some (x + vx, y + vy, nd)
                 else Some (x + vx, y + vy, DList []))
            | None \<Rightarrow>
                trace_loop blocks (x + vx) (y + vy) vx vy grid_size_x grid_size_y False)
      else Some (x, y, DList []))"

definition find_lazor_endpoint ::
  "board \<Rightarrow> int \<Rightarrow> int \<Rightarrow> int \<Rightarrow> int \<Rightarrow> int \<Rightarrow> int \<Rightarrow> (int \<times> int \<times> new_dirs) option"
where
  "find_lazor_endpoint lazor_grid x y vx vy grid_size_x grid_size_y =
     trace_loop (get_placed_blocks lazor_grid) x y vx vy grid_size_x grid_size_y True"

section \<open>The worklist loop of \<open>save_laser_image\<close>\<close>

text \<open>
  Of \<open>save_laser_image\<close> the part that traces the beams is embedded (lines 129 to
  154); the rest of the function draws. The bounds \<open>x_size_grid\<close> and \<open>y_size_grid\<close>,
  which lines 69 and 70 compute as twice the number of rows of the grid and twice the
  length of its first row, are parameters.

  The state of the loop: the board, the store of list objects (an address is valid
  when it is below the length of the store), the arguments of the calls of
  \<open>ax.arrow\<close> made so far (start point and the two lengths) and the beams printed as
  queued.
\<close>

record run_state =
  rs_board :: board
  rs_store :: store
  rs_arrows :: "(int \<times> int \<times> int \<times> int) list"
  rs_printed :: "beam list"

text \<open>Truth value of \<open>if new_dirs:\<close> on the third component of the tracer's result.\<close>

fun truthy_dirs :: "new_dirs \<Rightarrow> bool" where
  "truthy_dirs DNone = False"
| "truthy_dirs (DList ds) = (ds \<noteq> [])"

fun dirs_list :: "new_dirs \<Rightarrow> direction list" where
  "dirs_list DNone = []"
| "dirs_list (DList ds) = ds"

text \<open>Lines 149 to 154: the beams appended to the worklist, in order.\<close>

definition spawned_beams :: "int \<Rightarrow> int \<Rightarrow> int \<Rightarrow> int \<Rightarrow> new_dirs \<Rightarrow> beam list" where
  "spawned_beams x_size_grid y_size_grid end_x end_y new_dirs =
     (if within_bounds x_size_grid y_size_grid end_x end_y
      then (if truthy_dirs new_dirs
            then map (\<lambda>direction. (end_x, end_y, fst direction, snd direction)) (dirs_list new_dirs)
            else [])
      else [])"

text \<open>
  Lines 132 to 154: one turn of the loop on a non-empty worklist at address \<open>w\<close>:
  \<open>pop\<close> removes the last beam, the tracer is called, the arrow is drawn and the new
  beams are appended.
\<close>

definition propagate_step :: "int \<Rightarrow> int \<Rightarrow> addr \<Rightarrow> run_state \<Rightarrow> run_state option" where
  "propagate_step x_size_grid y_size_grid w s =
     (case last (rs_store s ! w) of (start_x, start_y, vx, vy) \<Rightarrow>
        (case find_lazor_endpoint (rs_board s) start_x start_y vx vy x_size_grid y_size_grid of
           None \<Rightarrow> None
         | Some (end_x, end_y, new_dirs) \<Rightarrow>
             Some (s\<lparr> rs_store := (rs_store s)
                        [w := butlast (rs_store s ! w)
                              @ spawned_beams x_size_grid y_size_grid end_x end_y new_dirs],
                      rs_arrows := rs_arrows s @ [(start_x, start_y, end_x - start_x, end_y - start_y)],
                      rs_printed := rs_printed s
                              @ spawned_beams x_size_grid y_size_grid end_x end_y new_dirs \<rparr>)))"

text \<open>
  Lines 131 to 154: the \<open>while\<close> loop. Beams can bounce between blocks for ever, or
  the tracer may not return, so the loop is a partial function as well.
\<close>

partial_function (option) propagate_loop ::
  "int \<Rightarrow> int \<Rightarrow> addr \<Rightarrow> run_state \<Rightarrow> run_state option"
where
  "propagate_loop x_size_grid y_size_grid w s =
     (if rs_store s ! w = [] then Some s
      else Option.bind (propagate_step x_size_grid y_size_grid w s)
             (propagate_loop x_size_grid y_size_grid w))"

text \<open>
  Line 130 and the loop: \<open>lazor_grid.lasers.copy()\<close> allocates a new list object
  holding the beams of the board's list, and the loop works on the new object.
\<close>

definition propagate :: "board \<Rightarrow> store \<Rightarrow> int \<Rightarrow> int \<Rightarrow> run_state option" where
  "propagate lazor_grid st x_size_grid y_size_grid =
     propagate_loop x_size_grid y_size_grid (length st)
       \<lparr> rs_board = lazor_grid, rs_store = st @ [st ! lasers lazor_grid],
         rs_arrows = [], rs_printed = [] \<rparr>"

section \<open>Vocabulary of the properties\<close>

text \<open>
  The precondition on a direction: each component is one of \<open>-1\<close>, \<open>0\<close>, \<open>1\<close> and the
  vector is not zero.
\<close>

definition valid_direction :: "int \<Rightarrow> int \<Rightarrow> bool" where
  "valid_direction vx vy \<longleftrightarrow>
     (vx = -1 \<or> vx = 0 \<or> vx = 1) \<and> (vy = -1 \<or> vy = 0 \<or> vy = 1) \<and> \<not> (vx = 0 \<and> vy = 0)"

text \<open>
  The \<open>j\<close>-th position of a beam that starts at \<open>(x, y)\<close> is
  \<open>(x + j * vx, y + j * vy)\<close>. The loop goes on after reaching it when no block holds
  it and it is strictly inside the bounds.
\<close>

definition free_at ::
  "block list \<Rightarrow> int \<Rightarrow> int \<Rightarrow> int \<Rightarrow> int \<Rightarrow> int \<Rightarrow> int \<Rightarrow> nat \<Rightarrow> bool"
where
  "free_at bs x y vx vy gx gy j \<longleftrightarrow>
     scan_blocks bs (vx, vy) (x + int j * vx) (y + int j * vy) = None \<and>
     strictly_inside gx gy (x + int j * vx) (y + int j * vy)"

text \<open>
  The tracer stops at its \<open>k\<close>-th position with the directions \<open>nd\<close>: every earlier
  position let the loop go on, and the \<open>k\<close>-th one is a collision (whose directions
  are dropped when it is out of the inclusive bounds) or a position that is not
  strictly inside.
\<close>

definition stops_after ::
  "block list \<Rightarrow> int \<Rightarrow> int \<Rightarrow> int \<Rightarrow> int \<Rightarrow> int \<Rightarrow> int \<Rightarrow> nat \<Rightarrow> new_dirs \<Rightarrow> bool"
where
  "stops_after bs x y vx vy gx gy k nd \<longleftrightarrow>
     (\<forall>j\<in>{1..<k}. free_at bs x y vx vy gx gy j) \<and>
     (case scan_blocks bs (vx, vy) (x + int k * vx) (y + int k * vy) of
        Some r \<Rightarrow>
          nd = (if within_bounds gx gy (x + int k * vx) (y + int k * vy) then r else DList [])
      | None \<Rightarrow>
          \<not> strictly_inside gx gy (x + int k * vx) (y + int k * vy) \<and> nd = DList [])"

text \<open>
  The number of steps a beam strictly inside the bounds can still take along a valid
  direction before it reaches a boundary, measured on the first non-zero component.
\<close>

definition exit_distance :: "int \<Rightarrow> int \<Rightarrow> int \<Rightarrow> int \<Rightarrow> int \<Rightarrow> int \<Rightarrow> nat" where
  "exit_distance vx vy gx gy x y =
     nat (if vx = 1 then gx - x else if vx = -1 then x else if vy = 1 then gy - y else y)"

text \<open>
  Two lists of blocks that differ at most in whether a block holds the point
  \<open>(x, y)\<close>.
\<close>

definition agree_away_from :: "int \<Rightarrow> int \<Rightarrow> block list \<Rightarrow> block list \<Rightarrow> bool" where
  "agree_away_from x y bs bs' \<longleftrightarrow>
     list_all2 (\<lambda>b b'. interact b = interact b' \<and>
                  (\<forall>p q. (p, q) \<noteq> (x, y) \<longrightarrow> within_boundaries b p q = within_boundaries b' p q))
       bs bs'"

text \<open>The segment drawn by a call of \<open>ax.arrow\<close>: its start point and its end point.\<close>

definition arrow_segment :: "int \<times> int \<times> int \<times> int \<Rightarrow> (int \<times> int) \<times> (int \<times> int)" where
  "arrow_segment a = (case a of (sx, sy, lx, ly) \<Rightarrow> ((sx, sy), (sx + lx, sy + ly)))"

definition segments :: "run_state \<Rightarrow> ((int \<times> int) \<times> (int \<times> int)) list" where
  "segments s = map arrow_segment (rs_arrows s)"

section \<open>Concrete boards\<close>

text \<open>
  The end-to-end scenario: bounds 4 by 4, the laser \<open>(0, 0, 1, 1)\<close>, and one reflecting
  block that holds exactly the point \<open>(2, 2)\<close> and sends \<open>(1, 1)\<close> to \<open>(1, -1)\<close>.
\<close>

definition reflect_block :: block where
  "reflect_block =
     \<lparr> within_boundaries = (\<lambda>x y. x = 2 \<and> y = 2),
       interact = (\<lambda>d p. if d = (1, 1) then RPair 1 (- 1) else RNone) \<rparr>"

definition scenario_board :: board where
  "scenario_board =
     \<lparr> placed_blocks = [reflect_block], orig_grid = [''oo'', ''oo''], points = [], lasers = 0 \<rparr>"

definition scenario_store :: store where
  "scenario_store = [[(0, 0, 1, 1)]]"

text \<open>A block that also holds the start point \<open>(0, 0)\<close> of the scenario's laser.\<close>

definition reflect_block_at_start :: block where
  "reflect_block_at_start =
     \<lparr> within_boundaries = (\<lambda>x y. x = 2 \<and> y = 2 \<or> x = 0 \<and> y = 0),
       interact = (\<lambda>d p. if d = (1, 1) then RPair 1 (- 1) else RNone) \<rparr>"

definition start_covered_board :: board where
  "start_covered_board = scenario_board \<lparr> placed_blocks := [reflect_block_at_start] \<rparr>"

text \<open>A block outside the bounds 4 by 4, at the point \<open>(5, 5)\<close>, that reflects every beam.\<close>

definition outer_block :: block where
  "outer_block =
     \<lparr> within_boundaries = (\<lambda>x y. x = 5 \<and> y = 5),
       interact = (\<lambda>d p. RPair (- fst d) (snd d)) \<rparr>"

definition outer_board :: board where
  "outer_board = \<lparr> placed_blocks = [outer_block], orig_grid = [''oo'', ''oo''], points = [], lasers = 0 \<rparr>"

text \<open>An absorbing block at \<open>(1, 1)\<close> whose \<open>interact\<close> returns \<open>None\<close>.\<close>

definition absorbing_block :: block where
  "absorbing_block =
     \<lparr> within_boundaries = (\<lambda>x y. x = 1 \<and> y = 1), interact = (\<lambda>d p. RNone) \<rparr>"

definition absorbing_board :: board where
  "absorbing_board =
     \<lparr> placed_blocks = [absorbing_block], orig_grid = [''oo'', ''oo''], points = [], lasers = 0 \<rparr>"

text \<open>
  Two blocks that both hold \<open>(1, 1)\<close>: the first splits the beam, the second absorbs
  it.
\<close>

definition splitting_block :: block where
  "splitting_block =
     \<lparr> within_boundaries = (\<lambda>x y. x = 1 \<and> y = 1),
       interact = (\<lambda>d p. RSeq [d, (- fst d, snd d)]) \<rparr>"

definition overlap_board :: board where
  "overlap_board =
     \<lparr> placed_blocks = [splitting_block, absorbing_block], orig_grid = [''oo'', ''oo''],
       points = [], lasers = 0 \<rparr>"

section \<open>Properties of the tracer\<close>

subsection \<open>One turn of the tracer's loop\<close>

lemma trace_loop_collision:
  assumes "strictly_inside gx gy x y \<or> first"
      and "scan_blocks bs (vx, vy) (x + vx) (y + vy) = Some nd"
  shows "trace_loop bs x y vx vy gx gy first
       = Some (x + vx, y + vy, if within_bounds gx gy (x + vx) (y + vy) then nd else DList [])"
  using assms by (subst trace_loop.simps) auto

lemma trace_loop_continue:
  assumes "strictly_inside gx gy x y \<or> first"
      and "scan_blocks bs (vx, vy) (x + vx) (y + vy) = None"
  shows "trace_loop bs x y vx vy gx gy first = trace_loop bs (x + vx) (y + vy) vx vy gx gy False"
  using assms by (subst trace_loop.simps) auto

lemma trace_loop_exit:
  assumes "\<not> strictly_inside gx gy x y"
  shows "trace_loop bs x y vx vy gx gy False = Some (x, y, DList [])"
  using assms by (subst trace_loop.simps) auto

lemma trace_loop_flag_inside:
  assumes "strictly_inside gx gy x y"
  shows "trace_loop bs x y vx vy gx gy first = trace_loop bs x y vx vy gx gy False"
  using assms by (subst trace_loop.simps, subst (2) trace_loop.simps) simp

lemma scan_blocks_None_iff:
  "scan_blocks bs d x y = None \<longleftrightarrow> (\<forall>b\<in>set bs. \<not> within_boundaries b x y)"
  by (induction bs) auto

lemma scan_blocks_first_match:
  assumes "\<forall>p\<in>set pre. \<not> within_boundaries p x y" and "within_boundaries blk x y"
  shows "scan_blocks (pre @ blk # post) d x y = Some (normalize_directions (interact blk d (x, y)))"
  using assms by (induction pre) auto

lemma normalize_directions_shape:
  "normalize_directions (RPair a b) = DList [(a, b)]"
  "normalize_directions (RSeq ds) = DList ds"
  "normalize_directions r = DNone \<longleftrightarrow> r = RNone"
  by (cases r; simp)+

subsection \<open>Runs of free steps\<close>

lemma next_position:
  "x + int j * vx + vx = x + int (Suc j) * vx"
  by (simp add: algebra_simps)

lemma trace_loop_free_steps:
  assumes "\<forall>j\<in>{1..n}. free_at bs x y vx vy gx gy j"
  shows "trace_loop bs x y vx vy gx gy True
       = trace_loop bs (x + int n * vx) (y + int n * vy) vx vy gx gy (n = 0)"
  using assms
proof (induction n)
  case 0
  show ?case by simp
next
  case (Suc n)
  have prev: "trace_loop bs x y vx vy gx gy True
       = trace_loop bs (x + int n * vx) (y + int n * vy) vx vy gx gy (n = 0)"
    using Suc by simp
  have go: "strictly_inside gx gy (x + int n * vx) (y + int n * vy) \<or> n = 0"
  proof (cases "n = 0")
    case True then show ?thesis by simp
  next
    case False
    then have "n \<in> {1..Suc n}" by simp
    then have "free_at bs x y vx vy gx gy n" using Suc.prems by blast
    then show ?thesis by (simp add: free_at_def)
  qed
  have "free_at bs x y vx vy gx gy (Suc n)" using Suc.prems by simp
  then have none: "scan_blocks bs (vx, vy) (x + int n * vx + vx) (y + int n * vy + vy) = None"
    unfolding free_at_def next_position by simp
  have "trace_loop bs (x + int n * vx) (y + int n * vy) vx vy gx gy (n = 0)
      = trace_loop bs (x + int (Suc n) * vx) (y + int (Suc n) * vy) vx vy gx gy False"
    using trace_loop_continue[OF go none] unfolding next_position .
  with prev show ?case by simp
qed

lemma trace_loop_stops:
  assumes k: "1 \<le> k" and st: "stops_after bs x y vx vy gx gy k nd"
  shows "trace_loop bs x y vx vy gx gy True = Some (x + int k * vx, y + int k * vy, nd)"
proof -
  obtain n where n: "k = Suc n" using k by (cases k) auto
  have free: "\<forall>j\<in>{1..n}. free_at bs x y vx vy gx gy j"
    using st unfolding stops_after_def n by auto
  have start: "trace_loop bs x y vx vy gx gy True
       = trace_loop bs (x + int n * vx) (y + int n * vy) vx vy gx gy (n = 0)"
    using trace_loop_free_steps[OF free] .
  have go: "strictly_inside gx gy (x + int n * vx) (y + int n * vy) \<or> n = 0"
  proof (cases "n = 0")
    case True then show ?thesis by simp
  next
    case False
    then have "free_at bs x y vx vy gx gy n" using free by simp
    then show ?thesis by (simp add: free_at_def)
  qed
  show ?thesis
  proof (cases "scan_blocks bs (vx, vy) (x + int k * vx) (y + int k * vy)")
    case (Some r)
    have nd: "nd = (if within_bounds gx gy (x + int k * vx) (y + int k * vy) then r else DList [])"
      using st Some by (simp add: stops_after_def)
    have "scan_blocks bs (vx, vy) (x + int n * vx + vx) (y + int n * vy + vy) = Some r"
      using Some unfolding n next_position .
    from trace_loop_collision[OF go this] show ?thesis
      unfolding start next_position n[symmetric] nd .
  next
    case None
    have out: "\<not> strictly_inside gx gy (x + int k * vx) (y + int k * vy)" and nd: "nd = DList []"
      using st None by (simp_all add: stops_after_def)
    have "scan_blocks bs (vx, vy) (x + int n * vx + vx) (y + int n * vy + vy) = None"
      using None unfolding n next_position .
    from trace_loop_continue[OF go this]
    have "trace_loop bs (x + int n * vx) (y + int n * vy) vx vy gx gy (n = 0)
        = trace_loop bs (x + int k * vx) (y + int k * vy) vx vy gx gy False"
      unfolding next_position n[symmetric] .
    then show ?thesis
      unfolding start nd using trace_loop_exit[OF out] by simp
  qed
qed

lemma stops_after_shift:
  assumes f1: "free_at bs x y vx vy gx gy 1"
      and st: "stops_after bs (x + vx) (y + vy) vx vy gx gy k nd"
  shows "stops_after bs x y vx vy gx gy (Suc k) nd"
proof -
  have pos: "\<And>j. x + vx + int j * vx = x + int (Suc j) * vx"
            "\<And>j. y + vy + int j * vy = y + int (Suc j) * vy"
    by (simp_all add: algebra_simps)
  have shift: "\<And>j. free_at bs (x + vx) (y + vy) vx vy gx gy j = free_at bs x y vx vy gx gy (Suc j)"
    by (simp add: free_at_def pos)
  have "\<forall>j\<in>{1..<Suc k}. free_at bs x y vx vy gx gy j"
  proof
    fix j assume j: "j \<in> {1..<Suc k}"
    show "free_at bs x y vx vy gx gy j"
    proof (cases "j = 1")
      case True then show ?thesis using f1 by simp
    next
      case False
      then obtain i where i: "j = Suc i" "i \<in> {1..<k}" using j by (cases j) auto
      then have "free_at bs (x + vx) (y + vy) vx vy gx gy i" using st by (simp add: stops_after_def)
      then show ?thesis using shift i by simp
    qed
  qed
  then show ?thesis using st unfolding stops_after_def pos by simp
qed

subsection \<open>Totality along a valid direction\<close>

lemma exit_distance_decreases:
  assumes "valid_direction vx vy" "strictly_inside gx gy x y"
  shows "exit_distance vx vy gx gy (x + vx) (y + vy) < exit_distance vx vy gx gy x y"
  using assms unfolding valid_direction_def strictly_inside_def exit_distance_def
  by auto

lemma step_stays_within:
  assumes "valid_direction vx vy" "strictly_inside gx gy x y"
  shows "within_bounds gx gy (x + vx) (y + vy)"
  using assms unfolding valid_direction_def strictly_inside_def within_bounds_def
  by auto

lemma stops_from_inside:
  assumes v: "valid_direction vx vy"
  shows "strictly_inside gx gy x y \<Longrightarrow>
         \<exists>k nd. 1 \<le> k \<and> stops_after bs x y vx vy gx gy k nd
            \<and> within_bounds gx gy (x + int k * vx) (y + int k * vy)"
proof (induction "exit_distance vx vy gx gy x y" arbitrary: x y rule: less_induct)
  case less
  let ?x = "x + vx" and ?y = "y + vy"
  have wb: "within_bounds gx gy ?x ?y" using step_stays_within[OF v less.prems] .
  show ?case
  proof (cases "free_at bs x y vx vy gx gy 1")
    case False
    let ?nd = "case scan_blocks bs (vx, vy) ?x ?y of Some r \<Rightarrow> r | None \<Rightarrow> DList []"
    have "stops_after bs x y vx vy gx gy 1 ?nd"
      using False wb by (auto simp: stops_after_def free_at_def split: option.splits)
    then show ?thesis using wb
      by (intro exI[of _ 1] exI[of _ ?nd]) simp
  next
    case True
    then have ins: "strictly_inside gx gy ?x ?y" by (simp add: free_at_def)
    from less.hyps[OF exit_distance_decreases[OF v less.prems] ins]
    obtain k nd where k: "1 \<le> k"
      and st: "stops_after bs ?x ?y vx vy gx gy k nd"
      and wb': "within_bounds gx gy (?x + int k * vx) (?y + int k * vy)"
      by blast
    have pos: "?x + int k * vx = x + int (Suc k) * vx" "?y + int k * vy = y + int (Suc k) * vy"
      by (simp_all add: algebra_simps)
    show ?thesis
      using stops_after_shift[OF True st] wb' unfolding pos
      by (intro exI[of _ "Suc k"] exI[of _ nd]) simp
  qed
qed

lemma stops_from_start:
  assumes v: "valid_direction vx vy"
  shows "\<exists>k nd. 1 \<le> k \<and> stops_after bs x y vx vy gx gy k nd
            \<and> (within_bounds gx gy (x + int k * vx) (y + int k * vy)
                 \<or> k = 1 \<and> \<not> strictly_inside gx gy x y)"
proof (cases "free_at bs x y vx vy gx gy 1")
  case False
  let ?nd = "case scan_blocks bs (vx, vy) (x + vx) (y + vy) of
               Some r \<Rightarrow> if within_bounds gx gy (x + vx) (y + vy) then r else DList []
             | None \<Rightarrow> DList []"
  have st: "stops_after bs x y vx vy gx gy 1 ?nd"
    using False by (auto simp: stops_after_def free_at_def split: option.splits)
  show ?thesis
  proof (cases "strictly_inside gx gy x y")
    case True
    then show ?thesis using st step_stays_within[OF v True]
      by (intro exI[of _ 1] exI[of _ ?nd]) simp
  next
    case False
    then show ?thesis using st
      by (intro exI[of _ 1] exI[of _ ?nd]) simp
  qed
next
  case True
  then have ins: "strictly_inside gx gy (x + vx) (y + vy)" by (simp add: free_at_def)
  from stops_from_inside[OF v ins]
  obtain k nd where k: "1 \<le> k"
    and st: "stops_after bs (x + vx) (y + vy) vx vy gx gy k nd"
    and wb': "within_bounds gx gy (x + vx + int k * vx) (y + vy + int k * vy)"
    by blast
  have pos: "x + vx + int k * vx = x + int (Suc k) * vx" "y + vy + int k * vy = y + int (Suc k) * vy"
    by (simp_all add: algebra_simps)
  show ?thesis
    using stops_after_shift[OF True st] wb' unfolding pos
    by (intro exI[of _ "Suc k"] exI[of _ nd]) simp
qed

lemma position_differs:
  assumes "valid_direction vx vy" "1 \<le> k"
  shows "(x + int k * vx, y + int k * vy) \<noteq> (x, y)"
  using assms unfolding valid_direction_def by auto

subsection \<open>Blocks at the start point\<close>

lemma scan_blocks_agree:
  assumes "agree_away_from x y bs bs'" "(p, q) \<noteq> (x, y)"
  shows "scan_blocks bs' d p q = scan_blocks bs d p q"
  using assms unfolding agree_away_from_def
  by (induction bs bs' rule: list_all2_induct) auto

lemma stops_after_agree:
  assumes v: "valid_direction vx vy" and ag: "agree_away_from x y bs bs'"
      and st: "stops_after bs x y vx vy gx gy k nd" and k: "1 \<le> k"
  shows "stops_after bs' x y vx vy gx gy k nd"
proof -
  have sc: "\<And>j. 1 \<le> j \<Longrightarrow> scan_blocks bs' (vx, vy) (x + int j * vx) (y + int j * vy)
                           = scan_blocks bs (vx, vy) (x + int j * vx) (y + int j * vy)"
    using scan_blocks_agree[OF ag position_differs[OF v]] by simp
  have "\<forall>j\<in>{1..<k}. free_at bs' x y vx vy gx gy j"
    using st sc by (simp add: stops_after_def free_at_def)
  then show ?thesis using st sc[OF k] by (simp add: stops_after_def)
qed

subsection \<open>The zero direction\<close>

text \<open>
  With the direction \<open>(0, 0)\<close> the position never changes: a run that starts strictly
  inside the bounds at a point that no block holds cannot return.
\<close>

lemma zero_direction_never_returns:
  assumes "trace_loop bs x y vx vy gx gy first = Some r"
  shows "\<not> (vx = 0 \<and> vy = 0 \<and> strictly_inside gx gy x y \<and> scan_blocks bs (0, 0) x y = None)"
proof -
  define stuck where "stuck = (\<lambda>bs x y (vx::int) (vy::int) gx gy (first::bool) (r::int \<times> int \<times> new_dirs).
     \<not> (vx = 0 \<and> vy = 0 \<and> strictly_inside gx gy x y \<and> scan_blocks bs (0, 0) x y = None))"
  have step: "stuck bs x y vx vy gx gy first r"
    if ih: "\<And>bs x y vx vy gx gy first r. f bs x y vx vy gx gy first = Some r \<Longrightarrow> stuck bs x y vx vy gx gy first r"
    and body: "(if strictly_inside gx gy x y \<or> first
      then case scan_blocks bs (vx, vy) (x + vx) (y + vy) of
           None \<Rightarrow> f bs (x + vx) (y + vy) vx vy gx gy False
           | Some nd \<Rightarrow>
               if within_bounds gx gy (x + vx) (y + vy)
               then Some (x + vx, y + vy, nd)
               else Some (x + vx, y + vy, DList [])
      else Some (x, y, DList [])) = Some r"
    for f bs x y vx vy gx gy first r
  proof (cases "vx = 0 \<and> vy = 0 \<and> strictly_inside gx gy x y \<and> scan_blocks bs (0, 0) x y = None")
    case False
    then show ?thesis unfolding stuck_def by blast
  next
    case True
    then have "f bs x y vx vy gx gy False = Some r" using body by simp
    from ih[OF this] show ?thesis unfolding stuck_def by blast
  qed
  note rule = trace_loop.raw_induct[where P = stuck
      and xa = "(((((((bs, x), y), vx), vy), gx), gy), first)" and ya = r, unfolded prod.case]
  have "stuck bs x y vx vy gx gy first r"
    by (rule rule) (rule step, assumption+, rule assms)
  then show ?thesis unfolding stuck_def .
qed

subsection \<open>Evaluation on the concrete boards\<close>

lemma scenario_first_beam:
  "find_lazor_endpoint scenario_board 0 0 1 1 4 4 = Some (2, 2, DList [(1, - 1)])"
  by (simp add: find_lazor_endpoint_def get_placed_blocks_def scenario_board_def reflect_block_def
      trace_loop.simps strictly_inside_def within_bounds_def)

lemma scenario_second_beam:
  "find_lazor_endpoint scenario_board 2 2 1 (- 1) 4 4 = Some (4, 0, DList [])"
  by (simp add: find_lazor_endpoint_def get_placed_blocks_def scenario_board_def reflect_block_def
      trace_loop.simps strictly_inside_def within_bounds_def)

section \<open>The claims about the tracer\<close>

text \<open>
  Claim C2. For every board, start point, bounds and valid direction, the tracer returns,
  and its end point is \<open>(x + k * vx, y + k * vy)\<close> for some \<open>k \<ge> 1\<close>: at least one step
  is taken wherever the start point lies, the end point differs from the start point,
  and the segment lies on the line through the start point along the direction.
  No collision is checked at the start point: the result is the same on every board
  whose blocks differ only in whether they hold the start point.
\<close>

theorem find_lazor_endpoint_straight_segment:
  assumes "valid_direction vx vy"
  shows "\<exists>k nd. 1 \<le> k
           \<and> find_lazor_endpoint b x y vx vy gx gy = Some (x + int k * vx, y + int k * vy, nd)
           \<and> (x + int k * vx, y + int k * vy) \<noteq> (x, y)
           \<and> (\<forall>b'. agree_away_from x y (get_placed_blocks b) (get_placed_blocks b') \<longrightarrow>
                  find_lazor_endpoint b' x y vx vy gx gy = find_lazor_endpoint b x y vx vy gx gy)"
proof -
  from stops_from_start[OF assms]
  obtain k nd where k: "1 \<le> k" and st: "stops_after (get_placed_blocks b) x y vx vy gx gy k nd"
    by blast
  have res: "find_lazor_endpoint b x y vx vy gx gy = Some (x + int k * vx, y + int k * vy, nd)"
    using trace_loop_stops[OF k st] by (simp add: find_lazor_endpoint_def)
  have "find_lazor_endpoint b' x y vx vy gx gy = find_lazor_endpoint b x y vx vy gx gy"
    if ag: "agree_away_from x y (get_placed_blocks b) (get_placed_blocks b')" for b'
    using trace_loop_stops[OF k stops_after_agree[OF assms ag st k]] res
    by (simp add: find_lazor_endpoint_def)
  then show ?thesis
    using k res position_differs[OF assms k] by blast
qed

theorem find_lazor_endpoint_straight_segment_witness:
  "valid_direction 1 1
   \<and> agree_away_from 0 0 (get_placed_blocks scenario_board) (get_placed_blocks start_covered_board)
   \<and> find_lazor_endpoint start_covered_board 0 0 1 1 4 4 = Some (2, 2, DList [(1, - 1)])"
proof -
  have v: "valid_direction 1 1" by (simp add: valid_direction_def)
  have ag: "agree_away_from 0 0 (get_placed_blocks scenario_board) (get_placed_blocks start_covered_board)"
    by (auto simp: agree_away_from_def get_placed_blocks_def start_covered_board_def scenario_board_def
        reflect_block_def reflect_block_at_start_def)
  from find_lazor_endpoint_straight_segment[OF v, of scenario_board 0 0 4 4] ag
  have "find_lazor_endpoint start_covered_board 0 0 1 1 4 4 = find_lazor_endpoint scenario_board 0 0 1 1 4 4"
    by blast
  then show ?thesis using v ag scenario_first_beam by simp
qed

text \<open>
  Claim C3. When the first collision of a trace is at a point outside the inclusive
  bounds (every earlier position was free of blocks and strictly inside), the tracer
  returns that point as it is, with the empty sequence of directions, whatever the
  block's \<open>interact\<close> returned.
\<close>

theorem out_of_bounds_collision_discarded:
  assumes "1 \<le> k"
      and "\<forall>j\<in>{1..<k}. free_at (get_placed_blocks b) x y vx vy gx gy j"
      and "scan_blocks (get_placed_blocks b) (vx, vy) (x + int k * vx) (y + int k * vy) = Some r"
      and "\<not> within_bounds gx gy (x + int k * vx) (y + int k * vy)"
  shows "find_lazor_endpoint b x y vx vy gx gy = Some (x + int k * vx, y + int k * vy, DList [])"
proof -
  have "stops_after (get_placed_blocks b) x y vx vy gx gy k (DList [])"
    using assms(2-4) by (simp add: stops_after_def)
  from trace_loop_stops[OF assms(1) this] show ?thesis
    by (simp add: find_lazor_endpoint_def)
qed

theorem out_of_bounds_collision_discarded_witness:
  "scan_blocks (get_placed_blocks outer_board) (1, 1) (4 + int 1 * 1) (4 + int 1 * 1) = Some (DList [(- 1, 1)])
   \<and> \<not> within_bounds 4 4 (4 + int 1 * 1) (4 + int 1 * 1)
   \<and> find_lazor_endpoint outer_board 4 4 1 1 4 4 = Some (5, 5, DList [])"
proof -
  have sc: "scan_blocks (get_placed_blocks outer_board) (1, 1) (4 + int 1 * 1) (4 + int 1 * 1)
            = Some (DList [(- 1, 1)])"
    by (simp add: get_placed_blocks_def outer_board_def outer_block_def)
  have out: "\<not> within_bounds 4 4 (4 + int 1 * 1) (4 + int 1 * 1)"
    by (simp add: within_bounds_def)
  have free: "\<forall>j\<in>{1..<1::nat}. free_at (get_placed_blocks outer_board) 4 4 1 1 4 4 j"
    by simp
  from out_of_bounds_collision_discarded[OF _ free sc out]
  show ?thesis using sc out by simp
qed

text \<open>
  Claim C5. For a valid direction the tracer returns the point reached after some
  \<open>k \<ge> 1\<close> steps, every position before it (after the start) is strictly inside the
  bounds, and the end point is within the inclusive bounds or is the very first
  position stepped to, from a start point that is not strictly inside. Whenever some
  position before the end is strictly inside, the position just before the end is
  strictly inside and the end point is within the inclusive bounds: the end point is
  one step past the last position strictly inside.
\<close>

theorem find_lazor_endpoint_bounds_containment:
  assumes "valid_direction vx vy"
  shows "\<exists>k nd. 1 \<le> k
           \<and> find_lazor_endpoint b x y vx vy gx gy = Some (x + int k * vx, y + int k * vy, nd)
           \<and> (\<forall>j\<in>{1..<k}. strictly_inside gx gy (x + int j * vx) (y + int j * vy))
           \<and> (within_bounds gx gy (x + int k * vx) (y + int k * vy)
                \<or> k = 1 \<and> \<not> strictly_inside gx gy x y)
           \<and> (\<forall>j\<in>{0..<k}. strictly_inside gx gy (x + int j * vx) (y + int j * vy) \<longrightarrow>
                  strictly_inside gx gy (x + int (k - 1) * vx) (y + int (k - 1) * vy)
                  \<and> within_bounds gx gy (x + int k * vx) (y + int k * vy))"
proof -
  from stops_from_start[OF assms]
  obtain k nd where k: "1 \<le> k" and st: "stops_after (get_placed_blocks b) x y vx vy gx gy k nd"
    and wb: "within_bounds gx gy (x + int k * vx) (y + int k * vy)
                 \<or> k = 1 \<and> \<not> strictly_inside gx gy x y"
    by blast
  have res: "find_lazor_endpoint b x y vx vy gx gy = Some (x + int k * vx, y + int k * vy, nd)"
    using trace_loop_stops[OF k st] by (simp add: find_lazor_endpoint_def)
  have ins: "\<forall>j\<in>{1..<k}. strictly_inside gx gy (x + int j * vx) (y + int j * vy)"
    using st by (simp add: stops_after_def free_at_def)
  have last: "strictly_inside gx gy (x + int (k - 1) * vx) (y + int (k - 1) * vy)
                  \<and> within_bounds gx gy (x + int k * vx) (y + int k * vy)"
    if j: "j \<in> {0..<k}" and sj: "strictly_inside gx gy (x + int j * vx) (y + int j * vy)" for j
  proof (cases "k = 1")
    case True
    then have "j = 0" using j by simp
    then show ?thesis using sj wb True by auto
  next
    case False
    then have "k - 1 \<in> {1..<k}" using k by auto
    then have "strictly_inside gx gy (x + int (k - 1) * vx) (y + int (k - 1) * vy)"
      using ins by blast
    then show ?thesis using wb False by simp
  qed
  show ?thesis
    using k res ins wb last by blast
qed

theorem find_lazor_endpoint_bounds_containment_witness:
  "valid_direction 1 1
   \<and> (\<exists>k nd. 1 \<le> k \<and> find_lazor_endpoint outer_board 7 7 1 1 4 4 = Some (7 + int k * 1, 7 + int k * 1, nd)
        \<and> k = 1)"
proof -
  have v: "valid_direction 1 1" by (simp add: valid_direction_def)
  from find_lazor_endpoint_bounds_containment[OF v, of outer_board 7 7 4 4]
  show ?thesis using v by (auto simp: within_bounds_def)
qed

text \<open>
  Claim C6. At a step position that several placed blocks hold, the block that comes
  first in the order of \<open>get_placed_blocks\<close> decides alone: the scan returns the
  directions of its \<open>interact\<close>, and so does the tracer (or the empty sequence, out of
  the inclusive bounds), whatever the blocks after it are.
\<close>

theorem first_block_in_board_order_wins:
  assumes "1 \<le> k"
      and "\<forall>j\<in>{1..<k}. free_at (get_placed_blocks b) x y vx vy gx gy j"
      and "get_placed_blocks b = pre @ blk # post"
      and "\<forall>p\<in>set pre. \<not> within_boundaries p (x + int k * vx) (y + int k * vy)"
      and "within_boundaries blk (x + int k * vx) (y + int k * vy)"
  shows "scan_blocks (get_placed_blocks b) (vx, vy) (x + int k * vx) (y + int k * vy)
           = Some (normalize_directions (interact blk (vx, vy) (x + int k * vx, y + int k * vy)))
       \<and> find_lazor_endpoint b x y vx vy gx gy
           = Some (x + int k * vx, y + int k * vy,
                   if within_bounds gx gy (x + int k * vx) (y + int k * vy)
                   then normalize_directions (interact blk (vx, vy) (x + int k * vx, y + int k * vy))
                   else DList [])"
proof -
  have sc: "scan_blocks (get_placed_blocks b) (vx, vy) (x + int k * vx) (y + int k * vy)
           = Some (normalize_directions (interact blk (vx, vy) (x + int k * vx, y + int k * vy)))"
    unfolding assms(3) using scan_blocks_first_match[OF assms(4,5)] .
  have "stops_after (get_placed_blocks b) x y vx vy gx gy k
          (if within_bounds gx gy (x + int k * vx) (y + int k * vy)
           then normalize_directions (interact blk (vx, vy) (x + int k * vx, y + int k * vy))
           else DList [])"
    using assms(2) sc by (simp add: stops_after_def)
  from trace_loop_stops[OF assms(1) this] sc show ?thesis
    by (simp add: find_lazor_endpoint_def)
qed

theorem first_block_in_board_order_wins_witness:
  "get_placed_blocks overlap_board = [] @ splitting_block # [absorbing_block]
   \<and> within_boundaries splitting_block (0 + int 1 * 1) (0 + int 1 * 1)
   \<and> within_boundaries absorbing_block (0 + int 1 * 1) (0 + int 1 * 1)
   \<and> find_lazor_endpoint overlap_board 0 0 1 1 4 4 = Some (1, 1, DList [(1, 1), (- 1, 1)])"
proof -
  have bl: "get_placed_blocks overlap_board = [] @ splitting_block # [absorbing_block]"
    by (simp add: get_placed_blocks_def overlap_board_def)
  have w1: "within_boundaries splitting_block (0 + int 1 * 1) (0 + int 1 * 1)"
    by (simp add: splitting_block_def)
  have w2: "within_boundaries absorbing_block (0 + int 1 * 1) (0 + int 1 * 1)"
    by (simp add: absorbing_block_def)
  have free: "\<forall>j\<in>{1..<1::nat}. free_at (get_placed_blocks overlap_board) 0 0 1 1 4 4 j"
    by simp
  have pre: "\<forall>p\<in>set []. \<not> within_boundaries p (0 + int 1 * 1) (0 + int 1 * 1)"
    by simp
  from first_block_in_board_order_wins[OF _ free bl pre w1]
  have "find_lazor_endpoint overlap_board 0 0 1 1 4 4 = Some (1, 1, DList [(1, 1), (- 1, 1)])"
    by (simp add: within_bounds_def splitting_block_def)
  then show ?thesis using bl w1 w2 by simp
qed

text \<open>
  Claim C7, at the input where it fails. The block at \<open>(1, 1)\<close> absorbs the beam and
  its \<open>interact\<close> returns \<open>None\<close>: the third component of the tracer's result is
  \<open>None\<close>, not the empty sequence.
\<close>

theorem absorbed_None_is_returned_as_None:
  "find_lazor_endpoint absorbing_board 0 0 1 1 4 4 = Some (1, 1, DNone)"
  by (simp add: find_lazor_endpoint_def get_placed_blocks_def absorbing_board_def absorbing_block_def
      trace_loop.simps strictly_inside_def within_bounds_def)

text \<open>
  Claim C8, as amended. The tracer does not reject the direction \<open>(0, 0)\<close>. The
  mandatory first step leaves the position where it is; if a block holds the start
  point the tracer returns the start point with that block's directions (none when
  the start point is outside the inclusive bounds); otherwise it returns the start
  point with no direction when the start point is not strictly inside the bounds, and
  never returns when it is.
\<close>

theorem zero_direction_behaviour:
  "find_lazor_endpoint b x y 0 0 gx gy =
     (case scan_blocks (get_placed_blocks b) (0, 0) x y of
        Some nd \<Rightarrow> Some (x, y, if within_bounds gx gy x y then nd else DList [])
      | None \<Rightarrow> if strictly_inside gx gy x y then None else Some (x, y, DList []))"
proof (cases "scan_blocks (get_placed_blocks b) (0, 0) x y")
  case (Some nd)
  then show ?thesis
    using trace_loop_collision[where first = True and vx = 0 and vy = 0 and x = x and y = y]
    by (simp add: find_lazor_endpoint_def)
next
  case None
  show ?thesis
  proof (cases "strictly_inside gx gy x y")
    case True
    have "trace_loop (get_placed_blocks b) x y 0 0 gx gy True = None"
      using zero_direction_never_returns[of "get_placed_blocks b" x y 0 0 gx gy True] None True
      by (cases "trace_loop (get_placed_blocks b) x y 0 0 gx gy True") auto
    then show ?thesis using None True by (simp add: find_lazor_endpoint_def)
  next
    case False
    have "trace_loop (get_placed_blocks b) x y 0 0 gx gy True
        = trace_loop (get_placed_blocks b) x y 0 0 gx gy False"
      using trace_loop_continue[where first = True and vx = 0 and vy = 0 and x = x and y = y] None
      by simp
    then show ?thesis using None False trace_loop_exit[OF False] by (simp add: find_lazor_endpoint_def)
  qed
qed


theorem zero_direction_behaviour_witness:
  "find_lazor_endpoint scenario_board 1 1 0 0 4 4 = None
   \<and> find_lazor_endpoint scenario_board 2 2 0 0 4 4 = Some (2, 2, DNone)
   \<and> find_lazor_endpoint scenario_board 4 1 0 0 4 4 = Some (4, 1, DList [])"
  by (simp add: zero_direction_behaviour get_placed_blocks_def scenario_board_def reflect_block_def
      strictly_inside_def within_bounds_def)

text \<open>
  The claim C8 as it was stated fails: on the scenario board, the call with the
  direction \<open>(0, 0)\<close> from the corner \<open>(0, 0)\<close> returns a result.
\<close>

theorem zero_direction_not_rejected:
  "find_lazor_endpoint scenario_board 0 0 0 0 4 4 = Some (0, 0, DList [])"
  by (simp add: find_lazor_endpoint_def get_placed_blocks_def scenario_board_def reflect_block_def
      trace_loop.simps strictly_inside_def within_bounds_def)

text \<open>
  Claim C9. For every board, bounds, start point and valid direction the loop of the
  tracer terminates: it returns after some \<open>k \<ge> 1\<close> steps, every earlier position
  having been free of blocks and strictly inside the bounds, and the \<open>k\<close>-th position
  is a collision, or is the first position that is not strictly inside the bounds.
\<close>

theorem find_lazor_endpoint_terminates:
  assumes "valid_direction vx vy"
  shows "\<exists>k nd. 1 \<le> k
           \<and> find_lazor_endpoint b x y vx vy gx gy = Some (x + int k * vx, y + int k * vy, nd)
           \<and> stops_after (get_placed_blocks b) x y vx vy gx gy k nd"
proof -
  from stops_from_start[OF assms]
  obtain k nd where "1 \<le> k" "stops_after (get_placed_blocks b) x y vx vy gx gy k nd"
    by blast
  then show ?thesis
    using trace_loop_stops unfolding find_lazor_endpoint_def by blast
qed

theorem find_lazor_endpoint_terminates_witness:
  "valid_direction 1 (- 1) \<and> (\<exists>r. find_lazor_endpoint scenario_board 2 2 1 (- 1) 4 4 = Some r)"
  using find_lazor_endpoint_terminates[of 1 "- 1" scenario_board 2 2 4 4]
  by (auto simp: valid_direction_def)

section \<open>Properties of the worklist loop\<close>

lemma truthy_dirs_iff: "truthy_dirs nd \<longleftrightarrow> dirs_list nd \<noteq> []"
  by (cases nd) simp_all

lemma spawned_beams_nonempty_iff:
  "spawned_beams gx gy ex ey nd \<noteq> [] \<longleftrightarrow> within_bounds gx gy ex ey \<and> dirs_list nd \<noteq> []"
  by (simp add: spawned_beams_def truthy_dirs_iff)

lemma propagate_step_result:
  assumes "rs_store s ! w = ws @ [(sx, sy, vx, vy)]"
      and "find_lazor_endpoint (rs_board s) sx sy vx vy gx gy = Some (ex, ey, nd)"
  shows "propagate_step gx gy w s =
           Some (s\<lparr> rs_store := (rs_store s)[w := ws @ spawned_beams gx gy ex ey nd],
                    rs_arrows := rs_arrows s @ [(sx, sy, ex - sx, ey - sy)],
                    rs_printed := rs_printed s @ spawned_beams gx gy ex ey nd \<rparr>)"
  using assms by (simp add: propagate_step_def)

lemma propagate_step_frame:
  assumes "propagate_step gx gy w s = Some s'"
  shows "rs_board s' = rs_board s \<and> length (rs_store s') = length (rs_store s)
       \<and> (\<forall>a. a \<noteq> w \<longrightarrow> rs_store s' ! a = rs_store s ! a)"
  using assms
  by (auto simp: propagate_step_def split: prod.splits option.splits)

lemma propagate_loop_frame:
  assumes "propagate_loop gx gy w s = Some s'"
  shows "rs_board s' = rs_board s \<and> length (rs_store s') = length (rs_store s)
       \<and> (\<forall>a. a \<noteq> w \<longrightarrow> rs_store s' ! a = rs_store s ! a)"
proof (rule propagate_loop.raw_induct[OF _ assms])
  fix loop gx gy w s s'
  assume ih: "\<And>gx gy w s s'. loop gx gy w s = Some s' \<Longrightarrow>
                rs_board s' = rs_board s \<and> length (rs_store s') = length (rs_store s)
                \<and> (\<forall>a. a \<noteq> w \<longrightarrow> rs_store s' ! a = rs_store s ! a)"
     and body: "(if rs_store s ! w = [] then Some s
                 else Option.bind (propagate_step gx gy w s) (loop gx gy w)) = Some s'"
  show "rs_board s' = rs_board s \<and> length (rs_store s') = length (rs_store s)
       \<and> (\<forall>a. a \<noteq> w \<longrightarrow> rs_store s' ! a = rs_store s ! a)"
  proof (cases "rs_store s ! w = []")
    case True
    then show ?thesis using body by simp
  next
    case False
    then obtain s1 where st: "propagate_step gx gy w s = Some s1" and lp: "loop gx gy w s1 = Some s'"
      using body by (auto simp: bind_eq_Some_conv)
    from propagate_step_frame[OF st] ih[OF lp] show ?thesis by simp
  qed
qed

lemma scenario_lasers: "lasers scenario_board = 0"
  by (simp add: scenario_board_def)

lemma scenario_run:
  "propagate scenario_board scenario_store 4 4 =
     Some \<lparr> rs_board = scenario_board, rs_store = [[(0, 0, 1, 1)], []],
            rs_arrows = [(0, 0, 2, 2), (2, 2, 2, - 2)], rs_printed = [(2, 2, 1, - 1)] \<rparr>"
  by (simp add: propagate_def propagate_loop.simps propagate_step_def scenario_first_beam
      scenario_second_beam spawned_beams_def within_bounds_def scenario_lasers scenario_store_def)

text \<open>
  What the copy of line 130 is for: run on the board's own list object, the loop pops
  every laser off it and leaves it empty.
\<close>

lemma loop_on_the_board's_list_empties_it:
  "propagate_loop 4 4 (lasers scenario_board)
      \<lparr> rs_board = scenario_board, rs_store = scenario_store, rs_arrows = [], rs_printed = [] \<rparr> =
     Some \<lparr> rs_board = scenario_board, rs_store = [[]],
            rs_arrows = [(0, 0, 2, 2), (2, 2, 2, - 2)], rs_printed = [(2, 2, 1, - 1)] \<rparr>"
  by (simp add: propagate_loop.simps propagate_step_def scenario_first_beam
      scenario_second_beam spawned_beams_def within_bounds_def scenario_lasers scenario_store_def)

section \<open>The claims about the worklist loop\<close>

text \<open>
  Claim C1, as amended. In the scenario (bounds 4 by 4, the laser \<open>(0, 0, 1, 1)\<close>, one
  block that holds exactly \<open>(2, 2)\<close> and sends \<open>(1, 1)\<close> to \<open>(1, -1)\<close>) the loop returns
  and draws the segment from \<open>(0, 0)\<close> to \<open>(2, 2)\<close>, then the segment from \<open>(2, 2)\<close> to
  \<open>(4, 0)\<close>; the only beam ever queued is \<open>(2, 2, 1, -1)\<close>, and the worklist is empty at
  the end.
\<close>

theorem scenario_propagation:
  "map_option segments (propagate scenario_board scenario_store 4 4)
     = Some [((0, 0), (2, 2)), ((2, 2), (4, 0))]
   \<and> map_option rs_printed (propagate scenario_board scenario_store 4 4) = Some [(2, 2, 1, - 1)]
   \<and> map_option (\<lambda>s. rs_store s ! length scenario_store) (propagate scenario_board scenario_store 4 4)
     = Some []"
  unfolding scenario_run by (simp add: segments_def arrow_segment_def scenario_store_def)

text \<open>
  The claim C1 as it was stated fails: the second segment does not end at \<open>(2, 0)\<close>.
\<close>

theorem scenario_second_segment_not_as_claimed:
  "map_option segments (propagate scenario_board scenario_store 4 4)
     \<noteq> Some [((0, 0), (2, 2)), ((2, 2), (2, 0))]"
  unfolding scenario_run by (simp add: segments_def arrow_segment_def)

text \<open>
  Claim C4. One turn of the loop on a worklist \<open>ws @ [beam]\<close>, when the tracer returns
  \<open>(ex, ey, nd)\<close> for the popped beam: the worklist becomes \<open>ws\<close> followed by the new
  beams; there are new beams exactly when the end point is within the inclusive bounds
  and \<open>nd\<close> is a non-empty sequence, and then there is one beam per direction, in order,
  each starting at the end point; with no direction returned the worklist is just
  \<open>ws\<close>.
\<close>

theorem propagate_step_queues_one_beam_per_direction:
  assumes "w < length (rs_store s)"
      and "rs_store s ! w = ws @ [(sx, sy, vx, vy)]"
      and "find_lazor_endpoint (rs_board s) sx sy vx vy gx gy = Some (ex, ey, nd)"
  shows "\<exists>s'. propagate_step gx gy w s = Some s'
           \<and> rs_store s' ! w = ws @ spawned_beams gx gy ex ey nd
           \<and> rs_printed s' = rs_printed s @ spawned_beams gx gy ex ey nd
           \<and> (spawned_beams gx gy ex ey nd \<noteq> [] \<longleftrightarrow>
                within_bounds gx gy ex ey \<and> dirs_list nd \<noteq> [])
           \<and> (within_bounds gx gy ex ey \<and> dirs_list nd \<noteq> [] \<longrightarrow>
                spawned_beams gx gy ex ey nd = map (\<lambda>d. (ex, ey, fst d, snd d)) (dirs_list nd))
           \<and> (dirs_list nd = [] \<longrightarrow> rs_store s' ! w = ws)"
proof -
  let ?s' = "s\<lparr> rs_store := (rs_store s)[w := ws @ spawned_beams gx gy ex ey nd],
                 rs_arrows := rs_arrows s @ [(sx, sy, ex - sx, ey - sy)],
                 rs_printed := rs_printed s @ spawned_beams gx gy ex ey nd \<rparr>"
  have step: "propagate_step gx gy w s = Some ?s'"
    using propagate_step_result[OF assms(2,3)] .
  have wl: "rs_store ?s' ! w = ws @ spawned_beams gx gy ex ey nd"
    using assms(1) by simp
  have pr: "rs_printed ?s' = rs_printed s @ spawned_beams gx gy ex ey nd"
    by simp
  have all: "within_bounds gx gy ex ey \<and> dirs_list nd \<noteq> [] \<longrightarrow>
                spawned_beams gx gy ex ey nd = map (\<lambda>d. (ex, ey, fst d, snd d)) (dirs_list nd)"
    by (simp add: spawned_beams_def truthy_dirs_iff)
  have none: "dirs_list nd = [] \<longrightarrow> rs_store ?s' ! w = ws"
    using wl spawned_beams_nonempty_iff[of gx gy ex ey nd] by auto
  show ?thesis
    using step wl pr spawned_beams_nonempty_iff[of gx gy ex ey nd] all none by blast
qed

theorem propagate_step_queues_one_beam_per_direction_witness:
  "(1::nat) < length [[(0, 0, 1, 1)], [(0::int, 0::int, 1::int, 1::int)]]
   \<and> find_lazor_endpoint scenario_board 0 0 1 1 4 4 = Some (2, 2, DList [(1, - 1)])
   \<and> (\<exists>s'. propagate_step 4 4 1
              \<lparr> rs_board = scenario_board, rs_store = [[(0, 0, 1, 1)], [(0, 0, 1, 1)]],
                rs_arrows = [], rs_printed = [] \<rparr> = Some s'
            \<and> rs_store s' ! 1 = [(2, 2, 1, - 1)])"
proof -
  let ?s = "\<lparr> rs_board = scenario_board, rs_store = [[(0, 0, 1, 1)], [(0, 0, 1, 1)]],
                rs_arrows = [], rs_printed = [] \<rparr>"
  have len: "1 < length (rs_store ?s)" by simp
  have top: "rs_store ?s ! 1 = [] @ [(0, 0, 1, 1)]" by simp
  have tr: "find_lazor_endpoint (rs_board ?s) 0 0 1 1 4 4 = Some (2, 2, DList [(1, - 1)])"
    using scenario_first_beam by simp
  from propagate_step_queues_one_beam_per_direction[OF len top tr]
  show ?thesis using scenario_first_beam
    by (auto simp: spawned_beams_def within_bounds_def)
qed

text \<open>
  Claim C10. The tracer writes to no object: it reads the blocks and returns a value.
  A run of the worklist loop that returns leaves the board as it was (its placed
  blocks, grid, points and reference to the lasers), and every list object that
  existed before the run, the board's list of lasers among them, holds what it held:
  the loop pops from and appends to the copy only. The methods of the board and of
  the blocks are taken to be free of side effects.
\<close>

theorem propagation_does_not_mutate_the_board:
  assumes "lasers b < length st"
      and "propagate b st gx gy = Some s'"
  shows "rs_board s' = b
       \<and> get_placed_blocks (rs_board s') = get_placed_blocks b
       \<and> orig_grid (rs_board s') = orig_grid b
       \<and> points (rs_board s') = points b
       \<and> lasers (rs_board s') = lasers b
       \<and> rs_store s' ! lasers b = st ! lasers b
       \<and> (\<forall>a<length st. rs_store s' ! a = st ! a)"
proof -
  let ?s0 = "\<lparr> rs_board = b, rs_store = st @ [st ! lasers b], rs_arrows = [], rs_printed = [] \<rparr>"
  have "propagate_loop gx gy (length st) ?s0 = Some s'"
    using assms(2) by (simp add: propagate_def)
  from propagate_loop_frame[OF this]
  have bd: "rs_board s' = b"
    and fr: "\<forall>a. a \<noteq> length st \<longrightarrow> rs_store s' ! a = (st @ [st ! lasers b]) ! a"
    by simp_all
  have old: "\<forall>a<length st. rs_store s' ! a = st ! a"
    using fr by (simp add: nth_append)
  then have "rs_store s' ! lasers b = st ! lasers b"
    using assms(1) by blast
  then show ?thesis using bd old by simp
qed

theorem propagation_does_not_mutate_the_board_witness:
  "lasers scenario_board < length scenario_store
   \<and> (\<exists>s'. propagate scenario_board scenario_store 4 4 = Some s'
            \<and> rs_board s' = scenario_board
            \<and> rs_store s' ! lasers scenario_board = [(0, 0, 1, 1)])"
proof -
  have l: "lasers scenario_board < length scenario_store"
    by (simp add: scenario_lasers scenario_store_def)
  from propagation_does_not_mutate_the_board[OF l scenario_run]
  show ?thesis using l scenario_run
    by (simp add: scenario_lasers scenario_store_def)
qed

end
